theory Spec2Isabelle
  imports
    Main
    "HOL-Library.Multiset"
    "HOL-Library.Char_ord"
    "HOL-Library.List_Lexorder"
begin

section \<open>Data model\<close>

text \<open>
  Timestamps (\<open>created_at\<close>, \<open>completed_at\<close>, the value of \<open>new Date()\<close>) are points
  on a linear time axis, here natural numbers. Text columns, ids and e-mail addresses are
  strings; a nullable column is an \<open>option\<close>, \<open>None\<close> being SQL \<open>null\<close>.
\<close>

type_synonym timestamp = nat

text \<open>A row of the remote table \<open>tasks\<close>, with all eight columns.\<close>

record tasks_row =
  c_id :: string
  c_title :: string
  c_description :: string
  c_status :: string
  c_due_date :: "string option"
  c_employee_email :: string
  c_created_at :: timestamp
  c_completed_at :: "timestamp option"

text \<open>
  A task object as the two list queries return it: the seven columns named in
  \<open>.select('id, title, description, status, due_date, employee_email, created_at')\<close>.
  The object has no \<open>completed_at\<close> key.
\<close>

record task =
  t_id :: string
  t_title :: string
  t_description :: string
  t_status :: string
  t_due_date :: "string option"
  t_employee_email :: string
  t_created_at :: timestamp

text \<open>
  The \<open>task\<close> argument of \<open>createTask\<close> and \<open>updateTask\<close> (the values of the task
  form): \<open>id\<close> is \<open>null\<close> for a new task, \<open>due_date\<close> is a string (\<open>''\<close> when the date
  input is empty) or absent.
\<close>

record task_values =
  v_id :: "string option"
  v_title :: string
  v_description :: string
  v_status :: string
  v_due_date :: "string option"
  v_employee_email :: string

text \<open>The object \<open>createTask\<close> passes to \<open>insert\<close>: five keys, always present.\<close>

record task_fields =
  f_title :: string
  f_description :: string
  f_status :: string
  f_due_date :: "string option"
  f_employee_email :: string

text \<open>
  The object passed to \<open>update\<close>: a key that is absent is \<open>None\<close>. The value of the
  key \<open>due_date\<close> may itself be \<open>null\<close>, so that key is an option of an option.
\<close>

record task_patch =
  set_title :: "string option"
  set_description :: "string option"
  set_status :: "string option"
  set_due_date :: "string option option"
  set_employee_email :: "string option"
  set_completed_at :: "timestamp option"

record employee =
  e_id :: string
  e_full_name :: string
  e_email :: string
  e_role :: string
  e_status :: string

text \<open>The values of the employee form: \<open>id\<close> is \<open>null\<close> for a new employee.\<close>

record employee_values =
  ev_id :: "string option"
  ev_full_name :: string
  ev_email :: string
  ev_role :: string
  ev_status :: string

record employee_fields =
  ef_full_name :: string
  ef_email :: string
  ef_role :: string
  ef_status :: string

record profile =
  p_id :: string
  p_full_name :: string
  p_role :: string

text \<open>A session: \<open>session.user.id\<close> and \<open>session.user.email\<close>.\<close>

record session =
  user_id :: string
  user_email :: string

section \<open>The remote store gateway\<close>

text \<open>
  Every call on the \<open>supabase\<close> client resolves to an object with the keys \<open>data\<close> and
  \<open>error\<close>; the error object carries a \<open>message\<close>. Calls that return no rows
  (\<open>insert\<close>, \<open>update\<close>, \<open>delete\<close>, \<open>signOut\<close>) are read for their \<open>error\<close> only.
\<close>

datatype remote_error = RemoteError (message: string)

record 'a response =
  data :: "'a option"
  error :: "remote_error option"

text \<open>
  \<open>signInWithPassword\<close> resolves to \<open>{ data: { session, user }, error }\<close>; the source
  reads \<open>data.session\<close> and \<open>error\<close>.
\<close>

record sign_in_response =
  data_session :: "session option"
  sign_in_error :: "remote_error option"

text \<open>
  The imported \<open>supabase\<close> client, as the application uses it: one field per query the
  source builds. \<open>'db\<close> is the state of the hosted service. The functions of the
  application take the client as a parameter, so that what they do with a response is
  stated for every client; \<open>supabase\<close> below is the reference model of the hosted store.
  \<^item> \<open>tasks_select flt\<close>: \<open>from('tasks').select('id, title, description, status, due_date,
    employee_email, created_at')\<close>, then \<open>.eq('employee_email', email)\<close> when \<open>flt\<close> is
    \<open>Some email\<close>, then \<open>.order('created_at', { ascending: false })\<close>;
  \<^item> \<open>tasks_insert row\<close>: \<open>from('tasks').insert([row])\<close>;
  \<^item> \<open>tasks_update fields id\<close>: \<open>from('tasks').update(fields).eq('id', id)\<close>;
  \<^item> \<open>tasks_delete id\<close>: \<open>from('tasks').delete().eq('id', id)\<close>;
  \<^item> \<open>employees_select\<close>: \<open>from('employees').select('id, full_name, email, role,
    status').order('full_name', { ascending: true })\<close>;
  \<^item> \<open>employees_single email\<close>: the same selection with \<open>.eq('email', email).single()\<close>;
  \<^item> \<open>employees_insert row\<close>, \<open>employees_update fields id\<close>: as for tasks;
  \<^item> \<open>profiles_single id\<close>: \<open>from('profiles').select('id, full_name,
    role').eq('id', id).single()\<close>;
  \<^item> \<open>auth_signInWithPassword email password\<close> and \<open>auth_signOut\<close>: the calls on
    \<open>supabase.auth\<close>.
\<close>

record 'db client =
  tasks_select :: "string option \<Rightarrow> 'db \<Rightarrow> task list response"
  tasks_insert :: "task_fields \<Rightarrow> 'db \<Rightarrow> remote_error option \<times> 'db"
  tasks_update :: "task_patch \<Rightarrow> string option \<Rightarrow> 'db \<Rightarrow> remote_error option \<times> 'db"
  tasks_delete :: "string \<Rightarrow> 'db \<Rightarrow> remote_error option \<times> 'db"
  employees_select :: "'db \<Rightarrow> employee list response"
  employees_single :: "string \<Rightarrow> 'db \<Rightarrow> employee response"
  employees_insert :: "employee_fields \<Rightarrow> 'db \<Rightarrow> remote_error option \<times> 'db"
  employees_update :: "employee_fields \<Rightarrow> string option \<Rightarrow> 'db \<Rightarrow> remote_error option \<times> 'db"
  profiles_single :: "string \<Rightarrow> 'db \<Rightarrow> profile response"
  auth_signInWithPassword :: "string \<Rightarrow> string \<Rightarrow> 'db \<Rightarrow> sign_in_response"
  auth_signOut :: "'db \<Rightarrow> remote_error option"

subsection \<open>Reference model of the hosted store\<close>

text \<open>
  The hosted service is not part of the repository. Its model follows the documented
  behaviour of the queries the source builds: \<open>eq\<close> keeps the rows whose column equals
  the value, \<open>order\<close> sorts, \<open>select\<close> projects onto the named columns, \<open>single\<close>
  fails unless exactly one row is left, \<open>update\<close> overwrites the given columns of the
  rows the filter keeps, \<open>insert\<close> adds a row whose \<open>id\<close> and \<open>created_at\<close> the server
  assigns. Row-level policies are not modelled. What the service decides by itself is an
  input, the environment: whether a call fails (a failed call changes nothing), the id
  and the creation time given to an inserted row.
\<close>

record db =
  db_tasks :: "tasks_row list"
  db_employees :: "employee list"
  db_profiles :: "profile list"
  db_users :: "(string \<times> string \<times> session) list"

datatype op =
  TasksSelect | TasksInsert | TasksUpdate | TasksDelete
  | EmployeesSelect | EmployeesSingle | EmployeesInsert | EmployeesUpdate
  | ProfilesSingle | SignIn | SignOut

record env =
  fault_of :: "op \<Rightarrow> remote_error option"
  fresh_id :: string
  server_now :: timestamp

definition select_task :: "tasks_row \<Rightarrow> task" where
  "select_task r =
     \<lparr>t_id = c_id r, t_title = c_title r, t_description = c_description r,
      t_status = c_status r, t_due_date = c_due_date r,
      t_employee_email = c_employee_email r, t_created_at = c_created_at r\<rparr>"

definition order_created_at_desc :: "tasks_row list \<Rightarrow> tasks_row list" where
  "order_created_at_desc rows = rev (sort_key c_created_at rows)"

definition eq_employee_email :: "string option \<Rightarrow> tasks_row \<Rightarrow> bool" where
  "eq_employee_email flt r = (case flt of None \<Rightarrow> True | Some email \<Rightarrow> c_employee_email r = email)"

definition apply_patch :: "task_patch \<Rightarrow> tasks_row \<Rightarrow> tasks_row" where
  "apply_patch p r =
     r\<lparr>c_title := (case set_title p of None \<Rightarrow> c_title r | Some v \<Rightarrow> v),
       c_description := (case set_description p of None \<Rightarrow> c_description r | Some v \<Rightarrow> v),
       c_status := (case set_status p of None \<Rightarrow> c_status r | Some v \<Rightarrow> v),
       c_due_date := (case set_due_date p of None \<Rightarrow> c_due_date r | Some v \<Rightarrow> v),
       c_employee_email :=
         (case set_employee_email p of None \<Rightarrow> c_employee_email r | Some v \<Rightarrow> v),
       c_completed_at :=
         (case set_completed_at p of None \<Rightarrow> c_completed_at r | Some v \<Rightarrow> Some v)\<rparr>"

definition new_tasks_row :: "env \<Rightarrow> task_fields \<Rightarrow> tasks_row" where
  "new_tasks_row ev f =
     \<lparr>c_id = fresh_id ev, c_title = f_title f, c_description = f_description f,
      c_status = f_status f, c_due_date = f_due_date f,
      c_employee_email = f_employee_email f, c_created_at = server_now ev,
      c_completed_at = None\<rparr>"

definition failed :: "remote_error \<Rightarrow> 'a response" where
  "failed e = \<lparr>data = None, error = Some e\<rparr>"

definition succeeded :: "'a \<Rightarrow> 'a response" where
  "succeeded x = \<lparr>data = Some x, error = None\<rparr>"

definition single :: "'a list \<Rightarrow> 'a response" where
  "single rows =
     (case rows of
        [r] \<Rightarrow> succeeded r
      | _ \<Rightarrow> failed (RemoteError ''JSON object requested, multiple (or no) rows returned''))"

definition query :: "env \<Rightarrow> op \<Rightarrow> 'a response \<Rightarrow> 'a response" where
  "query ev what r = (case fault_of ev what of Some e \<Rightarrow> failed e | None \<Rightarrow> r)"

definition mutate :: "env \<Rightarrow> op \<Rightarrow> db \<Rightarrow> db \<Rightarrow> remote_error option \<times> db" where
  "mutate ev what d d' = (case fault_of ev what of Some e \<Rightarrow> (Some e, d) | None \<Rightarrow> (None, d'))"

definition new_employee :: "env \<Rightarrow> employee_fields \<Rightarrow> employee" where
  "new_employee ev f =
     \<lparr>e_id = fresh_id ev, e_full_name = ef_full_name f, e_email = ef_email f,
      e_role = ef_role f, e_status = ef_status f\<rparr>"

definition set_employee :: "employee_fields \<Rightarrow> employee \<Rightarrow> employee" where
  "set_employee f e =
     e\<lparr>e_full_name := ef_full_name f, e_email := ef_email f, e_role := ef_role f,
       e_status := ef_status f\<rparr>"

text \<open>
  The accounts of the auth service are triples of e-mail address, password and the
  session a sign-in with them gives.
\<close>

definition sign_in :: "env \<Rightarrow> string \<Rightarrow> string \<Rightarrow> (string \<times> string \<times> session) list \<Rightarrow> sign_in_response" where
  "sign_in ev email password users =
     (case fault_of ev SignIn of
        Some e \<Rightarrow> \<lparr>data_session = None, sign_in_error = Some e\<rparr>
      | None \<Rightarrow>
          (case filter (\<lambda>(em, pw, s). em = email \<and> pw = password) users of
             [] \<Rightarrow> \<lparr>data_session = None,
                    sign_in_error = Some (RemoteError ''Invalid login credentials'')\<rparr>
           | (em, pw, s) # _ \<Rightarrow> \<lparr>data_session = Some s, sign_in_error = None\<rparr>))"

definition supabase :: "env \<Rightarrow> db client" where
  "supabase ev =
     \<lparr>tasks_select = (\<lambda>flt d. query ev TasksSelect
        (succeeded (map select_task
           (order_created_at_desc (filter (eq_employee_email flt) (db_tasks d)))))),
      tasks_insert = (\<lambda>f d. mutate ev TasksInsert d
        (d\<lparr>db_tasks := db_tasks d @ [new_tasks_row ev f]\<rparr>)),
      tasks_update = (\<lambda>p i d. mutate ev TasksUpdate d
        (d\<lparr>db_tasks := map (\<lambda>r. if Some (c_id r) = i then apply_patch p r else r) (db_tasks d)\<rparr>)),
      tasks_delete = (\<lambda>i d. mutate ev TasksDelete d
        (d\<lparr>db_tasks := filter (\<lambda>r. c_id r \<noteq> i) (db_tasks d)\<rparr>)),
      employees_select = (\<lambda>d. query ev EmployeesSelect
        (succeeded (sort_key e_full_name (db_employees d)))),
      employees_single = (\<lambda>email d. query ev EmployeesSingle
        (single (filter (\<lambda>e. e_email e = email) (db_employees d)))),
      employees_insert = (\<lambda>f d. mutate ev EmployeesInsert d
        (d\<lparr>db_employees := db_employees d @ [new_employee ev f]\<rparr>)),
      employees_update = (\<lambda>f i d. mutate ev EmployeesUpdate d
        (d\<lparr>db_employees := map (\<lambda>e. if Some (e_id e) = i then set_employee f e else e) (db_employees d)\<rparr>)),
      profiles_single = (\<lambda>i d. query ev ProfilesSingle
        (single (filter (\<lambda>p. p_id p = i) (db_profiles d)))),
      auth_signInWithPassword = (\<lambda>email password d. sign_in ev email password (db_users d)),
      auth_signOut = (\<lambda>d. fault_of ev SignOut)\<rparr>"

section \<open>The task access layer\<close>

text \<open>
  \<open>throw error\<close> is the result \<open>Inl error\<close>; a function that returns nothing returns
  \<open>Inr ()\<close>. A function that writes returns the state of the store as well.
  \<open>data || []\<close> is \<open>data\<close> unless \<open>data\<close> is null: an array, also the empty one, is
  truthy.
\<close>

definition getTasksForManager :: "'db client \<Rightarrow> 'db \<Rightarrow> remote_error + task list" where
  "getTasksForManager sb d =
     (let r = tasks_select sb None d in
      case error r of
        Some e \<Rightarrow> Inl e
      | None \<Rightarrow> Inr (case data r of None \<Rightarrow> [] | Some rows \<Rightarrow> rows))"

definition getTasksForEmployee :: "'db client \<Rightarrow> string \<Rightarrow> 'db \<Rightarrow> remote_error + task list" where
  "getTasksForEmployee sb email d =
     (let r = tasks_select sb (Some email) d in
      case error r of
        Some e \<Rightarrow> Inl e
      | None \<Rightarrow> Inr (case data r of None \<Rightarrow> [] | Some rows \<Rightarrow> rows))"

text \<open>
  \<open>task.due_date || null\<close>: an absent (or null) \<open>due_date\<close> and the empty string are
  falsy and give \<open>null\<close>; every other string is kept.
\<close>

definition or_null :: "string option \<Rightarrow> string option" where
  "or_null v = (case v of None \<Rightarrow> None | Some s \<Rightarrow> if s = [] then None else Some s)"

definition throw_if :: "remote_error option \<Rightarrow> remote_error + unit" where
  "throw_if e = (case e of Some err \<Rightarrow> Inl err | None \<Rightarrow> Inr ())"

definition createTask :: "'db client \<Rightarrow> task_values \<Rightarrow> 'db \<Rightarrow> (remote_error + unit) \<times> 'db" where
  "createTask sb task d =
     (let (e, d') = tasks_insert sb
        \<lparr>f_title = v_title task, f_description = v_description task,
         f_status = v_status task, f_due_date = or_null (v_due_date task),
         f_employee_email = v_employee_email task\<rparr> d
      in (throw_if e, d'))"

definition updateTask :: "'db client \<Rightarrow> task_values \<Rightarrow> 'db \<Rightarrow> (remote_error + unit) \<times> 'db" where
  "updateTask sb task d =
     (let (e, d') = tasks_update sb
        \<lparr>set_title = Some (v_title task), set_description = Some (v_description task),
         set_status = Some (v_status task), set_due_date = Some (or_null (v_due_date task)),
         set_employee_email = Some (v_employee_email task), set_completed_at = None\<rparr>
        (v_id task) d
      in (throw_if e, d'))"

text \<open>\<open>now\<close> is the value of \<open>new Date()\<close> when the function runs.\<close>

definition updateTaskStatus ::
  "'db client \<Rightarrow> timestamp \<Rightarrow> string \<Rightarrow> string \<Rightarrow> 'db \<Rightarrow> (remote_error + unit) \<times> 'db" where
  "updateTaskStatus sb now i status d =
     (let fields = \<lparr>set_title = None, set_description = None, set_status = Some status,
                    set_due_date = None, set_employee_email = None, set_completed_at = None\<rparr>;
          fields = (if status = ''done'' then fields\<lparr>set_completed_at := Some now\<rparr> else fields);
          (e, d') = tasks_update sb fields (Some i) d
      in (throw_if e, d'))"

definition deleteTask :: "'db client \<Rightarrow> string \<Rightarrow> 'db \<Rightarrow> (remote_error + unit) \<times> 'db" where
  "deleteTask sb i d = (let (e, d') = tasks_delete sb i d in (throw_if e, d'))"

section \<open>The application component\<close>

text \<open>
  The state of a component is the record of its \<open>useState\<close> variables; a handler is a
  function from the state before it runs to the state after it has run to its end.
\<close>

record app_state =
  app_session :: "session option"
  app_profile :: "profile option"
  app_loading :: bool
  app_error :: string

text \<open>What \<open>App\<close> returns: the loading text, or the element it mounts with its props.\<close>

datatype element =
  Loading
  | LoginForm string
  | ManagerDashboard
  | EmployeeDashboard string

definition App :: "app_state \<Rightarrow> element" where
  "App s =
     (if app_loading s then Loading
      else case app_session s of
        None \<Rightarrow> LoginForm (app_error s)
      | Some sn \<Rightarrow>
          (if (case app_profile s of None \<Rightarrow> False | Some p \<Rightarrow> p_role p = ''manager'')
           then ManagerDashboard
           else EmployeeDashboard (user_email sn)))"

text \<open>
  The paragraph \<open>{error && <p className="error-text">{error}</p>}\<close> of a form or a
  dashboard: nothing for the empty string.
\<close>

definition error_text :: "string \<Rightarrow> string option" where
  "error_text msg = (if msg = [] then None else Some msg)"

definition fetchProfile :: "'db client \<Rightarrow> string \<Rightarrow> 'db \<Rightarrow> app_state \<Rightarrow> app_state" where
  "fetchProfile sb userId d s =
     (let r = profiles_single sb userId d in
      case error r of
        Some e \<Rightarrow> s\<lparr>app_profile := None\<rparr>
      | None \<Rightarrow> s\<lparr>app_profile := data r\<rparr>)"

definition handleLogin :: "'db client \<Rightarrow> string \<Rightarrow> string \<Rightarrow> 'db \<Rightarrow> app_state \<Rightarrow> app_state" where
  "handleLogin sb email password d s =
     (let s1 = s\<lparr>app_error := []\<rparr>;
          r = auth_signInWithPassword sb email password d in
      case sign_in_error r of
        Some e \<Rightarrow> s1\<lparr>app_error := message e\<rparr>
      | None \<Rightarrow>
          (let s2 = s1\<lparr>app_session := data_session r\<rparr> in
           case data_session r of
             Some sn \<Rightarrow> fetchProfile sb (user_id sn) d s2
           | None \<Rightarrow> s2))"

definition handleLogout :: "'db client \<Rightarrow> 'db \<Rightarrow> app_state \<Rightarrow> app_state" where
  "handleLogout sb d s =
     (let e = auth_signOut sb d in s\<lparr>app_session := None, app_profile := None\<rparr>)"

section \<open>The manager dashboard\<close>

record manager_state =
  md_employees :: "employee list"
  md_loading :: bool
  md_error :: string
  md_editingEmployee :: "employee_values option"
  md_tasks :: "task list"
  md_tasksLoading :: bool
  md_tasksError :: string
  md_editingTask :: "task_values option"

text \<open>\<open>if (values.id)\<close>: \<open>null\<close> and the empty string are falsy.\<close>

definition truthy :: "string option \<Rightarrow> bool" where
  "truthy v = (case v of None \<Rightarrow> False | Some s \<Rightarrow> s \<noteq> [])"

definition loadEmployees :: "'db client \<Rightarrow> 'db \<Rightarrow> manager_state \<Rightarrow> manager_state" where
  "loadEmployees sb d s =
     (let s1 = s\<lparr>md_loading := True, md_error := []\<rparr>;
          r = employees_select sb d in
      case error r of
        Some e \<Rightarrow> s1\<lparr>md_error := ''Could not load employees'', md_loading := False\<rparr>
      | None \<Rightarrow>
          s1\<lparr>md_employees := (case data r of None \<Rightarrow> [] | Some rows \<Rightarrow> rows),
             md_loading := False\<rparr>)"

definition loadTasks :: "'db client \<Rightarrow> 'db \<Rightarrow> manager_state \<Rightarrow> manager_state" where
  "loadTasks sb d s =
     (let s1 = s\<lparr>md_tasksLoading := True, md_tasksError := []\<rparr>;
          s2 = (case getTasksForManager sb d of
                  Inr allTasks \<Rightarrow> s1\<lparr>md_tasks := allTasks\<rparr>
                | Inl err \<Rightarrow> s1\<lparr>md_tasksError := ''Could not load tasks''\<rparr>)
      in s2\<lparr>md_tasksLoading := False\<rparr>)"

definition saveTask ::
  "'db client \<Rightarrow> task_values \<Rightarrow> manager_state \<times> 'db \<Rightarrow> manager_state \<times> 'db" where
  "saveTask sb taskValues = (\<lambda>(s, d).
     (let s1 = s\<lparr>md_tasksError := []\<rparr>;
          (res, d') = (if truthy (v_id taskValues) then updateTask sb taskValues d
                       else createTask sb taskValues d)
      in case res of
           Inl err \<Rightarrow> (s1\<lparr>md_tasksError := ''Could not save task''\<rparr>, d')
         | Inr u \<Rightarrow> (loadTasks sb d' (s1\<lparr>md_editingTask := None\<rparr>), d')))"

text \<open>\<open>confirmDelete\<close> is the answer to \<open>window.confirm('Delete this task?')\<close>.\<close>

definition handleDeleteTask ::
  "'db client \<Rightarrow> bool \<Rightarrow> string \<Rightarrow> manager_state \<times> 'db \<Rightarrow> manager_state \<times> 'db" where
  "handleDeleteTask sb confirmDelete i = (\<lambda>(s, d).
     (if \<not> confirmDelete then (s, d)
      else let (res, d') = deleteTask sb i d in
        case res of
          Inl err \<Rightarrow> (s\<lparr>md_tasksError := ''Could not delete task''\<rparr>, d')
        | Inr u \<Rightarrow> (loadTasks sb d' s, d')))"

definition saveEmployee ::
  "'db client \<Rightarrow> employee_values \<Rightarrow> manager_state \<times> 'db \<Rightarrow> manager_state \<times> 'db" where
  "saveEmployee sb formValues = (\<lambda>(s, d).
     (let s1 = s\<lparr>md_error := []\<rparr>;
          fields = \<lparr>ef_full_name = ev_full_name formValues, ef_email = ev_email formValues,
                    ef_role = ev_role formValues, ef_status = ev_status formValues\<rparr>
      in if truthy (ev_id formValues) then
           (let (e, d') = employees_update sb fields (ev_id formValues) d in
            case e of
              Some updateError \<Rightarrow> (s1\<lparr>md_error := ''Could not update employee''\<rparr>, d')
            | None \<Rightarrow> (loadEmployees sb d' (s1\<lparr>md_editingEmployee := None\<rparr>), d'))
         else
           (let (e, d') = employees_insert sb fields d in
            case e of
              Some insertError \<Rightarrow> (s1\<lparr>md_error := ''Could not create employee''\<rparr>, d')
            | None \<Rightarrow> (loadEmployees sb d' (s1\<lparr>md_editingEmployee := None\<rparr>), d'))))"

section \<open>The employee dashboard\<close>

record employee_state =
  ed_employee :: "employee option"
  ed_loading :: bool
  ed_error :: string
  ed_tasks :: "task list"
  ed_tasksLoading :: bool
  ed_tasksError :: string

definition loadEmployee :: "'db client \<Rightarrow> string \<Rightarrow> 'db \<Rightarrow> employee_state \<Rightarrow> employee_state" where
  "loadEmployee sb userEmail d s =
     (let s1 = s\<lparr>ed_loading := True, ed_error := []\<rparr>;
          r = employees_single sb userEmail d in
      case error r of
        Some e \<Rightarrow> s1\<lparr>ed_error := ''Could not load your employee record'', ed_loading := False\<rparr>
      | None \<Rightarrow> s1\<lparr>ed_employee := data r, ed_loading := False\<rparr>)"

definition loadEmployeeTasks :: "'db client \<Rightarrow> string \<Rightarrow> 'db \<Rightarrow> employee_state \<Rightarrow> employee_state" where
  "loadEmployeeTasks sb userEmail d s =
     (let s1 = s\<lparr>ed_tasksLoading := True, ed_tasksError := []\<rparr>;
          s2 = (case getTasksForEmployee sb userEmail d of
                  Inr myTasks \<Rightarrow> s1\<lparr>ed_tasks := myTasks\<rparr>
                | Inl err \<Rightarrow> s1\<lparr>ed_tasksError := ''Could not load your tasks''\<rparr>)
      in s2\<lparr>ed_tasksLoading := False\<rparr>)"

definition handleStatusChange ::
  "'db client \<Rightarrow> timestamp \<Rightarrow> string \<Rightarrow> string \<Rightarrow> string \<Rightarrow> employee_state \<times> 'db
     \<Rightarrow> employee_state \<times> 'db" where
  "handleStatusChange sb now userEmail i newStatus = (\<lambda>(s, d).
     (let (res, d') = updateTaskStatus sb now i newStatus d in
      case res of
        Inl err \<Rightarrow> (s\<lparr>ed_tasksError := ''Could not update task status''\<rparr>, d')
      | Inr u \<Rightarrow>
          (case getTasksForEmployee sb userEmail d' of
             Inl err \<Rightarrow> (s\<lparr>ed_tasksError := ''Could not update task status''\<rparr>, d')
           | Inr myTasks \<Rightarrow> (s\<lparr>ed_tasks := myTasks\<rparr>, d'))))"

text \<open>
  The profile card of the dashboard, \<open>{!loading && employee && (...)}\<close>: the employee
  it shows, if any.
\<close>

definition profile_card :: "employee_state \<Rightarrow> employee option" where
  "profile_card s = (if \<not> ed_loading s then ed_employee s else None)"

section \<open>Notions used in the statements\<close>

text \<open>
  A task object with its status replaced if its id is \<open>i\<close>: mapped over a task list, it
  says what the list shows after the status of the task \<open>i\<close> has changed.
\<close>

definition set_status_of :: "string \<Rightarrow> string \<Rightarrow> task \<Rightarrow> task" where
  "set_status_of i newStatus t = (if t_id t = i then t\<lparr>t_status := newStatus\<rparr> else t)"

section \<open>Example store and states\<close>

text \<open>
  A store with three tasks, two employees, two profiles and two accounts; an environment
  in which no call fails, and one in which every call fails.
\<close>

definition no_faults :: env where
  "no_faults = \<lparr>fault_of = (\<lambda>what. None), fresh_id = ''t4'', server_now = 40\<rparr>"

definition offline :: env where
  "offline = \<lparr>fault_of = (\<lambda>what. Some (RemoteError ''offline'')), fresh_id = ''t4'',
     server_now = 40\<rparr>"

definition example_db :: db where
  "example_db =
     \<lparr>db_tasks =
        [\<lparr>c_id = ''t1'', c_title = ''Report'', c_description = ''Write it'', c_status = ''todo'',
          c_due_date = None, c_employee_email = ''a@x.com'', c_created_at = 10,
          c_completed_at = None\<rparr>,
         \<lparr>c_id = ''t2'', c_title = ''Audit'', c_description = [], c_status = ''in_progress'',
          c_due_date = Some ''2026-01-31'', c_employee_email = ''b@x.com'', c_created_at = 20,
          c_completed_at = None\<rparr>,
         \<lparr>c_id = ''t3'', c_title = ''Plan'', c_description = [], c_status = ''done'',
          c_due_date = None, c_employee_email = ''a@x.com'', c_created_at = 30,
          c_completed_at = Some 35\<rparr>],
      db_employees =
        [\<lparr>e_id = ''e1'', e_full_name = ''Ann'', e_email = ''a@x.com'', e_role = ''employee'',
          e_status = ''active''\<rparr>,
         \<lparr>e_id = ''e2'', e_full_name = ''Bob'', e_email = ''b@x.com'', e_role = ''employee'',
          e_status = ''active''\<rparr>],
      db_profiles =
        [\<lparr>p_id = ''u1'', p_full_name = ''Ann'', p_role = ''employee''\<rparr>,
         \<lparr>p_id = ''u3'', p_full_name = ''Max'', p_role = ''manager''\<rparr>],
      db_users =
        [(''a@x.com'', ''pw-a'', \<lparr>user_id = ''u1'', user_email = ''a@x.com''\<rparr>),
         (''m@x.com'', ''pw-m'', \<lparr>user_id = ''u3'', user_email = ''m@x.com''\<rparr>)]\<rparr>"

text \<open>A client whose list query resolves with neither rows nor an error.\<close>

definition null_data_client :: "db client" where
  "null_data_client =
     (supabase no_faults)\<lparr>tasks_select := (\<lambda>flt d. \<lparr>data = None, error = None\<rparr>)\<rparr>"

text \<open>
  States of the components: as mounted, and with data loaded or a form open; values of
  the task and employee forms; a store in which two employees share an e-mail address.
\<close>

definition new_task_values :: task_values where
  "new_task_values =
     \<lparr>v_id = None, v_title = ''Review'', v_description = [], v_status = ''todo'',
      v_due_date = Some [], v_employee_email = ''b@x.com''\<rparr>"

definition edited_task_values :: task_values where
  "edited_task_values =
     \<lparr>v_id = Some ''t2'', v_title = ''Audit 2'', v_description = ''Books'', v_status = ''todo'',
      v_due_date = Some ''2026-02-28'', v_employee_email = ''a@x.com''\<rparr>"

definition mounted :: employee_state where
  "mounted = \<lparr>ed_employee = None, ed_loading = True, ed_error = [], ed_tasks = [],
     ed_tasksLoading = True, ed_tasksError = []\<rparr>"

definition manager_editing :: manager_state where
  "manager_editing =
     \<lparr>md_employees = db_employees example_db, md_loading = False, md_error = ''old'',
      md_editingEmployee = Some \<lparr>ev_id = Some ''e1'', ev_full_name = ''Ann B'',
        ev_email = ''a@x.com'', ev_role = ''employee'', ev_status = ''inactive''\<rparr>,
      md_tasks = map select_task (db_tasks example_db), md_tasksLoading = False,
      md_tasksError = ''old'', md_editingTask = Some edited_task_values\<rparr>"

definition new_employee_values :: employee_values where
  "new_employee_values =
     \<lparr>ev_id = None, ev_full_name = ''Cy'', ev_email = ''c@x.com'', ev_role = ''employee'',
      ev_status = ''active''\<rparr>"

definition edited_employee_values :: employee_values where
  "edited_employee_values =
     \<lparr>ev_id = Some ''e1'', ev_full_name = ''Ann B'', ev_email = ''a@x.com'',
      ev_role = ''employee'', ev_status = ''inactive''\<rparr>"

definition ann :: employee where
  "ann = \<lparr>e_id = ''e1'', e_full_name = ''Ann'', e_email = ''a@x.com'', e_role = ''employee'',
     e_status = ''active''\<rparr>"

definition ann_loaded :: employee_state where
  "ann_loaded = \<lparr>ed_employee = Some ann, ed_loading = False, ed_error = [], ed_tasks = [],
     ed_tasksLoading = False, ed_tasksError = []\<rparr>"

definition twins_db :: db where
  "twins_db = example_db\<lparr>db_employees := db_employees example_db @
     [\<lparr>e_id = ''e3'', e_full_name = ''Ann 2'', e_email = ''a@x.com'', e_role = ''employee'',
       e_status = ''active''\<rparr>]\<rparr>"

definition signed_out :: app_state where
  "signed_out = \<lparr>app_session = None, app_profile = None, app_loading = False, app_error = []\<rparr>"

definition manager_signed_in :: app_state where
  "manager_signed_in =
     \<lparr>app_session = Some \<lparr>user_id = ''u3'', user_email = ''m@x.com''\<rparr>,
      app_profile = Some \<lparr>p_id = ''u3'', p_full_name = ''Max'', p_role = ''manager''\<rparr>,
      app_loading = False, app_error = []\<rparr>"

definition ann_session :: session where
  "ann_session = \<lparr>user_id = ''u1'', user_email = ''a@x.com''\<rparr>"

definition max_session :: session where
  "max_session = \<lparr>user_id = ''u3'', user_email = ''m@x.com''\<rparr>"

section \<open>The example environments\<close>

lemma offline_fault: "fault_of offline what = Some (RemoteError ''offline'')"
  by (simp add: offline_def)

lemma no_faults_fault: "fault_of no_faults what = None"
  by (simp add: no_faults_def)

section \<open>The list queries\<close>

lemma supabase_tasks_select:
  "tasks_select (supabase ev) flt d =
     query ev TasksSelect (succeeded (map select_task
           (order_created_at_desc (filter (eq_employee_email flt) (db_tasks d)))))"
  by (simp add: supabase_def)

lemma eq_employee_email_Some:
  "eq_employee_email (Some email) = (\<lambda>r. c_employee_email r = email)"
  by (simp add: eq_employee_email_def fun_eq_iff)

lemma eq_employee_email_None: "eq_employee_email None = (\<lambda>r. True)"
  by (simp add: eq_employee_email_def fun_eq_iff)

lemma mset_order_created_at_desc: "mset (order_created_at_desc rows) = mset rows"
  by (simp add: order_created_at_desc_def)

lemma sorted_order_created_at_desc:
  "sorted_wrt (\<lambda>a b. c_created_at b \<le> c_created_at a) (order_created_at_desc rows)"
proof -
  have "sorted (map c_created_at (sort_key c_created_at rows))"
    by (rule sorted_sort_key)
  then have "sorted_wrt (\<lambda>a b. c_created_at a \<le> c_created_at b) (sort_key c_created_at rows)"
    by (simp add: sorted_map)
  then show ?thesis
    by (simp add: order_created_at_desc_def sorted_wrt_rev)
qed

lemma sorted_select_task:
  "sorted_wrt (\<lambda>a b. t_created_at b \<le> t_created_at a) (map select_task rows)
     = sorted_wrt (\<lambda>a b. c_created_at b \<le> c_created_at a) rows"
  by (simp add: sorted_wrt_map select_task_def)

lemma getTasksForEmployee_supabase:
  "fault_of ev TasksSelect = None \<Longrightarrow>
   getTasksForEmployee (supabase ev) email d =
     Inr (map select_task (order_created_at_desc
       (filter (\<lambda>r. c_employee_email r = email) (db_tasks d))))"
  by (simp add: getTasksForEmployee_def supabase_tasks_select query_def succeeded_def
      eq_employee_email_Some)

lemma getTasksForManager_supabase:
  "fault_of ev TasksSelect = None \<Longrightarrow>
   getTasksForManager (supabase ev) d =
     Inr (map select_task (order_created_at_desc (db_tasks d)))"
  by (simp add: getTasksForManager_def supabase_tasks_select query_def succeeded_def
      eq_employee_email_None)

text \<open>
  C3: when the query does not fail, \<open>getTasksForEmployee email\<close> returns the selected
  columns of exactly the stored tasks whose \<open>employee_email\<close> is \<open>email\<close> (as a
  multiset: each such row once, and nothing else), \<open>getTasksForManager\<close> returns those
  of all stored tasks, and both lists are in descending order of \<open>created_at\<close>.
\<close>

theorem getTasks_exact_and_ordered:
  assumes ok: "fault_of ev TasksSelect = None"
  shows "\<exists>mine every.
      getTasksForEmployee (supabase ev) email d = Inr mine
    \<and> mset mine = image_mset select_task
        (filter_mset (\<lambda>r. c_employee_email r = email) (mset (db_tasks d)))
    \<and> sorted_wrt (\<lambda>a b. t_created_at b \<le> t_created_at a) mine
    \<and> getTasksForManager (supabase ev) d = Inr every
    \<and> mset every = image_mset select_task (mset (db_tasks d))
    \<and> sorted_wrt (\<lambda>a b. t_created_at b \<le> t_created_at a) every"
proof -
  let ?mine = "map select_task (order_created_at_desc
      (filter (\<lambda>r. c_employee_email r = email) (db_tasks d)))"
  let ?every = "map select_task (order_created_at_desc (db_tasks d))"
  have a: "getTasksForEmployee (supabase ev) email d = Inr ?mine"
    using ok by (rule getTasksForEmployee_supabase)
  have b: "getTasksForManager (supabase ev) d = Inr ?every"
    using ok by (rule getTasksForManager_supabase)
  have c: "mset ?mine = image_mset select_task
        (filter_mset (\<lambda>r. c_employee_email r = email) (mset (db_tasks d)))"
    by (simp add: mset_order_created_at_desc)
  have d: "mset ?every = image_mset select_task (mset (db_tasks d))"
    by (simp add: mset_order_created_at_desc)
  have e: "sorted_wrt (\<lambda>a b. t_created_at b \<le> t_created_at a) ?mine"
    by (simp only: sorted_select_task sorted_order_created_at_desc)
  have f: "sorted_wrt (\<lambda>a b. t_created_at b \<le> t_created_at a) ?every"
    by (simp only: sorted_select_task sorted_order_created_at_desc)
  from a b c d e f show ?thesis by blast
qed

theorem getTasks_exact_and_ordered_witness:
  "fault_of no_faults TasksSelect = None
 \<and> (\<exists>mine every.
      getTasksForEmployee (supabase no_faults) ''a@x.com'' example_db = Inr mine
    \<and> mset mine = image_mset select_task
        (filter_mset (\<lambda>r. c_employee_email r = ''a@x.com'') (mset (db_tasks example_db)))
    \<and> sorted_wrt (\<lambda>a b. t_created_at b \<le> t_created_at a) mine
    \<and> getTasksForManager (supabase no_faults) example_db = Inr every
    \<and> mset every = image_mset select_task (mset (db_tasks example_db))
    \<and> sorted_wrt (\<lambda>a b. t_created_at b \<le> t_created_at a) every)
 \<and> map t_id (projr (getTasksForEmployee (supabase no_faults) ''a@x.com'' example_db))
      = [''t3'', ''t1'']
 \<and> map t_id (projr (getTasksForManager (supabase no_faults) example_db))
      = [''t3'', ''t2'', ''t1'']"
proof -
  have h: "fault_of no_faults TasksSelect = None"
    by (simp add: no_faults_def)
  have 1: "map t_id (projr (getTasksForEmployee (supabase no_faults) ''a@x.com'' example_db))
      = [''t3'', ''t1'']"
    by (simp add: getTasksForEmployee_supabase [OF h] example_db_def
        order_created_at_desc_def select_task_def)
  have 2: "map t_id (projr (getTasksForManager (supabase no_faults) example_db))
      = [''t3'', ''t2'', ''t1'']"
    by (simp add: getTasksForManager_supabase [OF h] example_db_def
        order_created_at_desc_def select_task_def)
  from h 1 2 getTasks_exact_and_ordered [OF h, of "''a@x.com''" example_db]
  show ?thesis by blast
qed

text \<open>
  C9: for every client, a list query that resolves without an error and with \<open>data\<close>
  null or the empty array makes \<open>getTasksForManager\<close> and \<open>getTasksForEmployee\<close>
  return the empty list.
\<close>

theorem getTasks_never_null:
  "(error (tasks_select sb None d) = None \<and> data (tasks_select sb None d) \<in> {None, Some []}
      \<longrightarrow> getTasksForManager sb d = Inr [])
 \<and> (error (tasks_select sb (Some email) d) = None
        \<and> data (tasks_select sb (Some email) d) \<in> {None, Some []}
      \<longrightarrow> getTasksForEmployee sb email d = Inr [])"
  by (auto simp: getTasksForManager_def getTasksForEmployee_def)

theorem getTasks_never_null_witness:
  "error (tasks_select null_data_client None example_db) = None
 \<and> data (tasks_select null_data_client None example_db) = None
 \<and> getTasksForManager null_data_client example_db = Inr []
 \<and> error (tasks_select (supabase no_faults) (Some ''nobody@x.com'') example_db) = None
 \<and> data (tasks_select (supabase no_faults) (Some ''nobody@x.com'') example_db) = Some []
 \<and> getTasksForEmployee (supabase no_faults) ''nobody@x.com'' example_db = Inr []"
proof -
  have a: "error (tasks_select null_data_client None example_db) = None"
    and b: "data (tasks_select null_data_client None example_db) = None"
    by (simp_all add: null_data_client_def)
  have c: "error (tasks_select (supabase no_faults) (Some ''nobody@x.com'') example_db) = None"
    and d: "data (tasks_select (supabase no_faults) (Some ''nobody@x.com'') example_db) = Some []"
    by (simp_all add: supabase_tasks_select query_def succeeded_def no_faults_def
        eq_employee_email_Some example_db_def order_created_at_desc_def)
  from a b c d
    getTasks_never_null [of null_data_client example_db "''nobody@x.com''"]
    getTasks_never_null [of "supabase no_faults" example_db "''nobody@x.com''"]
  show ?thesis by simp
qed

section \<open>Writing tasks\<close>

lemma supabase_tasks_update:
  "tasks_update (supabase ev) p i d =
     mutate ev TasksUpdate d
       (d\<lparr>db_tasks := map (\<lambda>r. if Some (c_id r) = i then apply_patch p r else r) (db_tasks d)\<rparr>)"
  by (simp add: supabase_def)

lemma supabase_tasks_insert:
  "tasks_insert (supabase ev) f d =
     mutate ev TasksInsert d (d\<lparr>db_tasks := db_tasks d @ [new_tasks_row ev f]\<rparr>)"
  by (simp add: supabase_def)

lemma updateTaskStatus_failure:
  "fault_of ev TasksUpdate = Some e \<Longrightarrow>
   updateTaskStatus (supabase ev) now i status d = (Inl e, d)"
  by (simp add: updateTaskStatus_def supabase_tasks_update mutate_def throw_if_def Let_def)

lemma updateTaskStatus_success:
  "fault_of ev TasksUpdate = None \<Longrightarrow>
   updateTaskStatus (supabase ev) now i status d =
     (Inr (), d\<lparr>db_tasks := map (\<lambda>r. if c_id r = i
        then r\<lparr>c_status := status,
               c_completed_at := (if status = ''done'' then Some now else c_completed_at r)\<rparr>
        else r) (db_tasks d)\<rparr>)"
  by (simp add: updateTaskStatus_def supabase_tasks_update mutate_def throw_if_def Let_def
      apply_patch_def)

text \<open>
  C2: on the reference store, \<open>updateTaskStatus id status\<close> leaves the other tables and
  the number of task rows as they are; it succeeds exactly when the update call does not
  fail; a failed call changes no row; a successful one changes the rows whose id is \<open>id\<close>
  and no other, and in those it sets \<open>status\<close>, and \<open>completed_at\<close> to the current time
  (a non-null value) when \<open>status\<close> is \<open>'done'\<close>. For every other status, so for
  \<open>'todo'\<close> and \<open>'in_progress'\<close>, \<open>completed_at\<close> keeps its value, and every other
  column keeps its value in all cases.
\<close>

theorem updateTaskStatus_frame:
  assumes run: "updateTaskStatus (supabase ev) now i status d = (res, d')"
  shows "db_employees d' = db_employees d \<and> db_profiles d' = db_profiles d
    \<and> db_users d' = db_users d
    \<and> length (db_tasks d') = length (db_tasks d)
    \<and> (res = Inr () \<longleftrightarrow> fault_of ev TasksUpdate = None)
    \<and> (\<forall>k < length (db_tasks d).
          db_tasks d' ! k =
            (if c_id (db_tasks d ! k) = i \<and> res = Inr ()
             then (db_tasks d ! k)\<lparr>c_status := status,
                    c_completed_at :=
                      (if status = ''done'' then Some now
                       else c_completed_at (db_tasks d ! k))\<rparr>
             else db_tasks d ! k))"
proof (cases "fault_of ev TasksUpdate")
  case None
  from run updateTaskStatus_success [OF None, of now i status d]
  have "res = Inr ()" and "d' = d\<lparr>db_tasks := map (\<lambda>r. if c_id r = i
        then r\<lparr>c_status := status,
               c_completed_at := (if status = ''done'' then Some now else c_completed_at r)\<rparr>
        else r) (db_tasks d)\<rparr>"
    by simp_all
  with None show ?thesis by simp
next
  case (Some e)
  from run updateTaskStatus_failure [OF Some, of now i status d]
  have "res = Inl e" and "d' = d" by simp_all
  with Some show ?thesis by simp
qed

theorem updateTaskStatus_frame_witness:
  "fst (updateTaskStatus (supabase no_faults) 99 ''t1'' ''done'' example_db) = Inr ()
 \<and> map c_status (db_tasks (snd (updateTaskStatus (supabase no_faults) 99 ''t1'' ''done''
       example_db))) = [''done'', ''in_progress'', ''done'']
 \<and> map c_completed_at (db_tasks (snd (updateTaskStatus (supabase no_faults) 99 ''t1'' ''done''
       example_db))) = [Some 99, None, Some 35]
 \<and> map c_status (db_tasks (snd (updateTaskStatus (supabase no_faults) 99 ''t3'' ''todo''
       example_db))) = [''todo'', ''in_progress'', ''todo'']
 \<and> map c_completed_at (db_tasks (snd (updateTaskStatus (supabase no_faults) 99 ''t3'' ''todo''
       example_db))) = [None, None, Some 35]
 \<and> db_employees (snd (updateTaskStatus (supabase no_faults) 99 ''t3'' ''todo'' example_db))
      = db_employees example_db
 \<and> length (db_tasks (snd (updateTaskStatus (supabase no_faults) 99 ''t3'' ''todo''
      example_db))) = length (db_tasks example_db)"
proof -
  have ok: "fault_of no_faults TasksUpdate = None"
    by (simp add: no_faults_def)
  note at_done = updateTaskStatus_frame [OF prod.collapse [symmetric],
      of no_faults 99 "''t1''" "''done''" example_db]
  note at_todo = updateTaskStatus_frame [OF prod.collapse [symmetric],
      of no_faults 99 "''t3''" "''todo''" example_db]
  have 1: "map c_status (db_tasks (snd (updateTaskStatus (supabase no_faults) 99 ''t1'' ''done''
       example_db))) = [''done'', ''in_progress'', ''done'']"
    and 2: "map c_completed_at (db_tasks (snd (updateTaskStatus (supabase no_faults) 99 ''t1''
       ''done'' example_db))) = [Some 99, None, Some 35]"
    and 3: "map c_status (db_tasks (snd (updateTaskStatus (supabase no_faults) 99 ''t3'' ''todo''
       example_db))) = [''todo'', ''in_progress'', ''todo'']"
    and 4: "map c_completed_at (db_tasks (snd (updateTaskStatus (supabase no_faults) 99 ''t3''
       ''todo'' example_db))) = [None, None, Some 35]"
    by (simp_all add: updateTaskStatus_success [OF ok] example_db_def)
  from at_done at_todo ok 1 2 3 4 show ?thesis by simp
qed

lemma or_null_cases:
  "or_null v = (if v = None \<or> v = Some [] then None else v)"
  by (simp add: or_null_def split: option.split)

lemma createTask_success:
  "fault_of ev TasksInsert = None \<Longrightarrow>
   createTask (supabase ev) task d =
     (Inr (), d\<lparr>db_tasks := db_tasks d @
        [\<lparr>c_id = fresh_id ev, c_title = v_title task, c_description = v_description task,
          c_status = v_status task, c_due_date = or_null (v_due_date task),
          c_employee_email = v_employee_email task, c_created_at = server_now ev,
          c_completed_at = None\<rparr>]\<rparr>)"
  by (simp add: createTask_def supabase_tasks_insert mutate_def throw_if_def new_tasks_row_def)

lemma updateTask_success:
  "fault_of ev TasksUpdate = None \<Longrightarrow>
   updateTask (supabase ev) task d =
     (Inr (), d\<lparr>db_tasks := map (\<lambda>r. if Some (c_id r) = v_id task
        then r\<lparr>c_title := v_title task, c_description := v_description task,
               c_status := v_status task, c_due_date := or_null (v_due_date task),
               c_employee_email := v_employee_email task\<rparr>
        else r) (db_tasks d)\<rparr>)"
  by (simp add: updateTask_def supabase_tasks_update mutate_def throw_if_def apply_patch_def)

text \<open>
  C5: when the calls do not fail, \<open>createTask\<close> adds one row whose \<open>due_date\<close> is null
  if the supplied \<open>due_date\<close> is absent or the empty string and the supplied value
  otherwise, with the other four supplied fields as given; \<open>updateTask\<close> overwrites
  \<open>title\<close>, \<open>description\<close>, \<open>status\<close>, \<open>due_date\<close> (with the same rule) and
  \<open>employee_email\<close> of the rows whose id is the task's id, and changes nothing else.
\<close>

theorem due_date_normalised:
  assumes ins: "fault_of ev TasksInsert = None" and upd: "fault_of ev TasksUpdate = None"
  shows "(\<exists>row. createTask (supabase ev) task d = (Inr (), d\<lparr>db_tasks := db_tasks d @ [row]\<rparr>)
        \<and> c_due_date row =
            (if v_due_date task = None \<or> v_due_date task = Some [] then None
             else v_due_date task)
        \<and> c_title row = v_title task \<and> c_description row = v_description task
        \<and> c_status row = v_status task \<and> c_employee_email row = v_employee_email task)
    \<and> (\<exists>d'. updateTask (supabase ev) task d = (Inr (), d')
        \<and> db_employees d' = db_employees d \<and> db_profiles d' = db_profiles d
        \<and> db_users d' = db_users d
        \<and> length (db_tasks d') = length (db_tasks d)
        \<and> (\<forall>k < length (db_tasks d).
              db_tasks d' ! k =
                (if Some (c_id (db_tasks d ! k)) = v_id task
                 then (db_tasks d ! k)\<lparr>c_title := v_title task,
                        c_description := v_description task, c_status := v_status task,
                        c_due_date :=
                          (if v_due_date task = None \<or> v_due_date task = Some [] then None
                           else v_due_date task),
                        c_employee_email := v_employee_email task\<rparr>
                 else db_tasks d ! k)))"
proof (intro conjI)
  show "\<exists>row. createTask (supabase ev) task d = (Inr (), d\<lparr>db_tasks := db_tasks d @ [row]\<rparr>)
        \<and> c_due_date row =
            (if v_due_date task = None \<or> v_due_date task = Some [] then None
             else v_due_date task)
        \<and> c_title row = v_title task \<and> c_description row = v_description task
        \<and> c_status row = v_status task \<and> c_employee_email row = v_employee_email task"
    by (rule exI [where x = "\<lparr>c_id = fresh_id ev, c_title = v_title task,
          c_description = v_description task,
          c_status = v_status task, c_due_date = or_null (v_due_date task),
          c_employee_email = v_employee_email task, c_created_at = server_now ev,
          c_completed_at = None\<rparr>"])
      (simp add: createTask_success [OF ins] or_null_cases)
next
  show "\<exists>d'. updateTask (supabase ev) task d = (Inr (), d')
        \<and> db_employees d' = db_employees d \<and> db_profiles d' = db_profiles d
        \<and> db_users d' = db_users d
        \<and> length (db_tasks d') = length (db_tasks d)
        \<and> (\<forall>k < length (db_tasks d).
              db_tasks d' ! k =
                (if Some (c_id (db_tasks d ! k)) = v_id task
                 then (db_tasks d ! k)\<lparr>c_title := v_title task,
                        c_description := v_description task, c_status := v_status task,
                        c_due_date :=
                          (if v_due_date task = None \<or> v_due_date task = Some [] then None
                           else v_due_date task),
                        c_employee_email := v_employee_email task\<rparr>
                 else db_tasks d ! k))"
    by (simp add: updateTask_success [OF upd] or_null_cases)
qed

theorem due_date_normalised_witness:
  "fault_of no_faults TasksInsert = None \<and> fault_of no_faults TasksUpdate = None
 \<and> map c_due_date (db_tasks (snd (createTask (supabase no_faults) new_task_values example_db)))
      = [None, Some ''2026-01-31'', None, None]
 \<and> map c_due_date (db_tasks (snd (updateTask (supabase no_faults) edited_task_values
      example_db))) = [None, Some ''2026-02-28'', None]
 \<and> map c_title (db_tasks (snd (updateTask (supabase no_faults) edited_task_values
      example_db))) = [''Report'', ''Audit 2'', ''Plan'']
 \<and> (\<exists>d'. updateTask (supabase no_faults) edited_task_values example_db = (Inr (), d')
      \<and> length (db_tasks d') = length (db_tasks example_db))"
proof -
  have ins: "fault_of no_faults TasksInsert = None"
    and upd: "fault_of no_faults TasksUpdate = None"
    by (simp_all add: no_faults_def)
  have 1: "map c_due_date (db_tasks (snd (createTask (supabase no_faults) new_task_values
      example_db))) = [None, Some ''2026-01-31'', None, None]"
    by (simp add: createTask_success [OF ins] example_db_def new_task_values_def or_null_def)
  have 2: "map c_due_date (db_tasks (snd (updateTask (supabase no_faults) edited_task_values
      example_db))) = [None, Some ''2026-02-28'', None]"
    and 3: "map c_title (db_tasks (snd (updateTask (supabase no_faults) edited_task_values
      example_db))) = [''Report'', ''Audit 2'', ''Plan'']"
    by (simp_all add: updateTask_success [OF upd] example_db_def edited_task_values_def
        or_null_def)
  from due_date_normalised [OF ins upd, of edited_task_values example_db]
  have 4: "\<exists>d'. updateTask (supabase no_faults) edited_task_values example_db = (Inr (), d')
      \<and> length (db_tasks d') = length (db_tasks example_db)"
    by blast
  from ins upd 1 2 3 4 show ?thesis by blast
qed

section \<open>The employee dashboard: status change and reload\<close>

lemma insort_key_map_same_key:
  assumes "\<And>y. k (f y) = k y"
  shows "insort_key k (f x) (map f xs) = map f (insort_key k x xs)"
  by (induction xs) (simp_all add: assms)

lemma sort_key_map_same_key:
  assumes "\<And>y. k (f y) = k y"
  shows "sort_key k (map f xs) = map f (sort_key k xs)"
  by (induction xs) (simp_all add: insort_key_map_same_key [of k f, OF assms])

lemma order_created_at_desc_map:
  assumes "\<And>r. c_created_at (f r) = c_created_at r"
  shows "order_created_at_desc (map f rows) = map f (order_created_at_desc rows)"
  by (simp add: order_created_at_desc_def rev_map
      sort_key_map_same_key [of c_created_at f, OF assms])

lemma select_after_status_update:
  "map select_task (order_created_at_desc (filter (\<lambda>r. c_employee_email r = email)
     (map (\<lambda>r. if c_id r = i
        then r\<lparr>c_status := status,
               c_completed_at := (if status = ''done'' then Some now else c_completed_at r)\<rparr>
        else r) rows)))
   = map (set_status_of i status)
       (map select_task (order_created_at_desc (filter (\<lambda>r. c_employee_email r = email) rows)))"
proof -
  let ?u = "\<lambda>r. if c_id r = i
        then r\<lparr>c_status := status,
               c_completed_at := (if status = ''done'' then Some now else c_completed_at r)\<rparr>
        else r"
  have 1: "filter (\<lambda>r. c_employee_email r = email) (map ?u rows)
      = map ?u (filter (\<lambda>r. c_employee_email r = email) rows)"
    by (induction rows) simp_all
  have 2: "\<And>xs. order_created_at_desc (map ?u xs) = map ?u (order_created_at_desc xs)"
    by (rule order_created_at_desc_map) simp
  have 3: "\<And>r. select_task (?u r) = set_status_of i status (select_task r)"
    by (simp add: select_task_def set_status_of_def)
  show ?thesis
    by (simp only: 1 2 map_map comp_def 3)
qed

lemma handleStatusChange_success:
  assumes upd: "fault_of ev TasksUpdate = None" and sel: "fault_of ev TasksSelect = None"
  shows "handleStatusChange (supabase ev) now userEmail i newStatus (s, d) =
     (s\<lparr>ed_tasks := map (set_status_of i newStatus)
          (map select_task (order_created_at_desc
             (filter (\<lambda>r. c_employee_email r = userEmail) (db_tasks d))))\<rparr>,
      snd (updateTaskStatus (supabase ev) now i newStatus d))"
  by (simp add: handleStatusChange_def updateTaskStatus_success [OF upd]
      getTasksForEmployee_supabase [OF sel] select_after_status_update)

text \<open>
  C4, as amended: after a status change that succeeds (update and reload), the task list
  of the employee dashboard is the result of the list query on the store after the
  update; it is the list of the employee's tasks as it was before, with the status of the
  task changed; every task in it is the employee's and the changed task carries the new
  status. The list holds the seven selected columns only: it is the same whatever time
  was stored as \<open>completed_at\<close>.
\<close>

theorem handleStatusChange_reloads_selected_columns:
  assumes upd: "fault_of ev TasksUpdate = None" and sel: "fault_of ev TasksSelect = None"
  shows "(\<exists>before d'.
            getTasksForEmployee (supabase ev) userEmail d = Inr before
          \<and> updateTaskStatus (supabase ev) now i newStatus d = (Inr (), d')
          \<and> handleStatusChange (supabase ev) now userEmail i newStatus (s, d) =
              (s\<lparr>ed_tasks := map (set_status_of i newStatus) before\<rparr>, d')
          \<and> getTasksForEmployee (supabase ev) userEmail d' =
              Inr (map (set_status_of i newStatus) before))
    \<and> (\<forall>t \<in> set (ed_tasks (fst (handleStatusChange (supabase ev) now userEmail i newStatus
            (s, d)))).
          t_employee_email t = userEmail \<and> (t_id t = i \<longrightarrow> t_status t = newStatus))
    \<and> ed_tasks (fst (handleStatusChange (supabase ev) now userEmail i newStatus (s, d)))
        = ed_tasks (fst (handleStatusChange (supabase ev) now' userEmail i newStatus (s, d)))"
proof (intro conjI)
  let ?before = "map select_task (order_created_at_desc
             (filter (\<lambda>r. c_employee_email r = userEmail) (db_tasks d)))"
  let ?d' = "snd (updateTaskStatus (supabase ev) now i newStatus d)"
  have a: "getTasksForEmployee (supabase ev) userEmail d = Inr ?before"
    by (rule getTasksForEmployee_supabase [OF sel])
  have b: "updateTaskStatus (supabase ev) now i newStatus d = (Inr (), ?d')"
    by (simp add: updateTaskStatus_success [OF upd])
  have c: "handleStatusChange (supabase ev) now userEmail i newStatus (s, d) =
              (s\<lparr>ed_tasks := map (set_status_of i newStatus) ?before\<rparr>, ?d')"
    by (rule handleStatusChange_success [OF upd sel])
  have e: "getTasksForEmployee (supabase ev) userEmail ?d' =
              Inr (map (set_status_of i newStatus) ?before)"
    by (simp add: updateTaskStatus_success [OF upd] getTasksForEmployee_supabase [OF sel]
        select_after_status_update)
  from a b c e show "\<exists>before d'.
            getTasksForEmployee (supabase ev) userEmail d = Inr before
          \<and> updateTaskStatus (supabase ev) now i newStatus d = (Inr (), d')
          \<and> handleStatusChange (supabase ev) now userEmail i newStatus (s, d) =
              (s\<lparr>ed_tasks := map (set_status_of i newStatus) before\<rparr>, d')
          \<and> getTasksForEmployee (supabase ev) userEmail d' =
              Inr (map (set_status_of i newStatus) before)"
    by blast
  show "\<forall>t \<in> set (ed_tasks (fst (handleStatusChange (supabase ev) now userEmail i newStatus
            (s, d)))).
          t_employee_email t = userEmail \<and> (t_id t = i \<longrightarrow> t_status t = newStatus)"
    by (auto simp: handleStatusChange_success [OF upd sel] set_status_of_def select_task_def
        order_created_at_desc_def)
  show "ed_tasks (fst (handleStatusChange (supabase ev) now userEmail i newStatus (s, d)))
        = ed_tasks (fst (handleStatusChange (supabase ev) now' userEmail i newStatus (s, d)))"
    by (simp add: handleStatusChange_success [OF upd sel])
qed

theorem handleStatusChange_reloads_selected_columns_witness:
  "fault_of no_faults TasksUpdate = None \<and> fault_of no_faults TasksSelect = None
 \<and> map t_id (ed_tasks (fst (handleStatusChange (supabase no_faults) 50 ''a@x.com'' ''t1''
      ''in_progress'' (mounted, example_db)))) = [''t3'', ''t1'']
 \<and> map t_status (ed_tasks (fst (handleStatusChange (supabase no_faults) 50 ''a@x.com'' ''t1''
      ''in_progress'' (mounted, example_db)))) = [''done'', ''in_progress'']
 \<and> ed_tasks (fst (handleStatusChange (supabase no_faults) 50 ''a@x.com'' ''t1''
      ''in_progress'' (mounted, example_db)))
    = ed_tasks (fst (handleStatusChange (supabase no_faults) 60 ''a@x.com'' ''t1''
      ''in_progress'' (mounted, example_db)))"
proof -
  have upd: "fault_of no_faults TasksUpdate = None"
    and sel: "fault_of no_faults TasksSelect = None"
    by (simp_all add: no_faults_def)
  have 1: "map t_id (ed_tasks (fst (handleStatusChange (supabase no_faults) 50 ''a@x.com''
      ''t1'' ''in_progress'' (mounted, example_db)))) = [''t3'', ''t1'']"
    and 2: "map t_status (ed_tasks (fst (handleStatusChange (supabase no_faults) 50 ''a@x.com''
      ''t1'' ''in_progress'' (mounted, example_db)))) = [''done'', ''in_progress'']"
    by (simp_all add: handleStatusChange_success [OF upd sel] example_db_def
        order_created_at_desc_def select_task_def set_status_of_def)
  from handleStatusChange_reloads_selected_columns [OF upd sel,
      of "''a@x.com''" example_db 50 "''t1''" "''in_progress''" mounted 60]
  have 3: "ed_tasks (fst (handleStatusChange (supabase no_faults) 50 ''a@x.com'' ''t1''
      ''in_progress'' (mounted, example_db)))
    = ed_tasks (fst (handleStatusChange (supabase no_faults) 60 ''a@x.com'' ''t1''
      ''in_progress'' (mounted, example_db)))"
    by blast
  from upd sel 1 2 3 show ?thesis by blast
qed

text \<open>
  C4, as stated, fails: two status changes to \<open>'done'\<close> at different times store
  different \<open>completed_at\<close> values and reload the same list.
\<close>

theorem reload_does_not_show_completed_at:
  "map c_completed_at (db_tasks (snd (handleStatusChange (supabase no_faults) 50 ''a@x.com''
      ''t1'' ''done'' (mounted, example_db)))) = [Some 50, None, Some 35]
 \<and> map c_completed_at (db_tasks (snd (handleStatusChange (supabase no_faults) 60 ''a@x.com''
      ''t1'' ''done'' (mounted, example_db)))) = [Some 60, None, Some 35]
 \<and> ed_tasks (fst (handleStatusChange (supabase no_faults) 50 ''a@x.com'' ''t1'' ''done''
      (mounted, example_db)))
    = ed_tasks (fst (handleStatusChange (supabase no_faults) 60 ''a@x.com'' ''t1'' ''done''
      (mounted, example_db)))"
proof -
  have upd: "fault_of no_faults TasksUpdate = None"
    and sel: "fault_of no_faults TasksSelect = None"
    by (simp_all add: no_faults_def)
  show ?thesis
    by (simp add: handleStatusChange_success [OF upd sel] updateTaskStatus_success [OF upd]
        example_db_def)
qed

section \<open>The manager dashboard: failures\<close>

text \<open>
  C6: for every client. A failed load of the employees sets the employees error (and
  ends the employees loading flag) and changes nothing else; a failed load of the tasks
  sets the tasks error (and ends the tasks loading flag) and changes nothing else; a
  failed \<open>saveTask\<close> or \<open>handleDeleteTask\<close> changes the tasks error only, and a failed
  \<open>saveEmployee\<close> the employees error only: the lists, the other section's error and both
  editing states are as before. A delete that is not confirmed changes nothing.
\<close>

theorem manager_failures_are_section_scoped:
  "(error (employees_select sb d) \<noteq> None \<longrightarrow>
      loadEmployees sb d s = s\<lparr>md_loading := False, md_error := ''Could not load employees''\<rparr>)
 \<and> (isl (getTasksForManager sb d) \<longrightarrow>
      loadTasks sb d s = s\<lparr>md_tasksLoading := False, md_tasksError := ''Could not load tasks''\<rparr>)
 \<and> (isl (fst (if truthy (v_id taskValues) then updateTask sb taskValues d
               else createTask sb taskValues d)) \<longrightarrow>
      fst (saveTask sb taskValues (s, d)) = s\<lparr>md_tasksError := ''Could not save task''\<rparr>)
 \<and> (isl (fst (deleteTask sb i d)) \<longrightarrow>
      fst (handleDeleteTask sb True i (s, d)) = s\<lparr>md_tasksError := ''Could not delete task''\<rparr>)
 \<and> fst (handleDeleteTask sb False i (s, d)) = s
 \<and> (truthy (ev_id formValues)
      \<and> fst (employees_update sb
            \<lparr>ef_full_name = ev_full_name formValues, ef_email = ev_email formValues,
             ef_role = ev_role formValues, ef_status = ev_status formValues\<rparr>
            (ev_id formValues) d) \<noteq> None \<longrightarrow>
      fst (saveEmployee sb formValues (s, d)) = s\<lparr>md_error := ''Could not update employee''\<rparr>)
 \<and> (\<not> truthy (ev_id formValues)
      \<and> fst (employees_insert sb
            \<lparr>ef_full_name = ev_full_name formValues, ef_email = ev_email formValues,
             ef_role = ev_role formValues, ef_status = ev_status formValues\<rparr> d) \<noteq> None \<longrightarrow>
      fst (saveEmployee sb formValues (s, d)) = s\<lparr>md_error := ''Could not create employee''\<rparr>)"
proof (intro conjI impI)
  assume "error (employees_select sb d) \<noteq> None"
  then show "loadEmployees sb d s
      = s\<lparr>md_loading := False, md_error := ''Could not load employees''\<rparr>"
    by (auto simp: loadEmployees_def)
next
  assume "isl (getTasksForManager sb d)"
  then show "loadTasks sb d s
      = s\<lparr>md_tasksLoading := False, md_tasksError := ''Could not load tasks''\<rparr>"
    by (cases "getTasksForManager sb d") (simp_all add: loadTasks_def)
next
  assume "isl (fst (if truthy (v_id taskValues) then updateTask sb taskValues d
               else createTask sb taskValues d))"
  then show "fst (saveTask sb taskValues (s, d)) = s\<lparr>md_tasksError := ''Could not save task''\<rparr>"
    by (cases "if truthy (v_id taskValues) then updateTask sb taskValues d
               else createTask sb taskValues d")
      (auto simp: saveTask_def Let_def isl_def)
next
  assume "isl (fst (deleteTask sb i d))"
  then show "fst (handleDeleteTask sb True i (s, d))
      = s\<lparr>md_tasksError := ''Could not delete task''\<rparr>"
    by (cases "deleteTask sb i d") (auto simp: handleDeleteTask_def Let_def isl_def)
next
  show "fst (handleDeleteTask sb False i (s, d)) = s"
    by (simp add: handleDeleteTask_def)
next
  assume "truthy (ev_id formValues)
      \<and> fst (employees_update sb
            \<lparr>ef_full_name = ev_full_name formValues, ef_email = ev_email formValues,
             ef_role = ev_role formValues, ef_status = ev_status formValues\<rparr>
            (ev_id formValues) d) \<noteq> None"
  then show "fst (saveEmployee sb formValues (s, d))
      = s\<lparr>md_error := ''Could not update employee''\<rparr>"
    by (auto simp: saveEmployee_def Let_def split: prod.splits)
next
  assume "\<not> truthy (ev_id formValues)
      \<and> fst (employees_insert sb
            \<lparr>ef_full_name = ev_full_name formValues, ef_email = ev_email formValues,
             ef_role = ev_role formValues, ef_status = ev_status formValues\<rparr> d) \<noteq> None"
  then show "fst (saveEmployee sb formValues (s, d))
      = s\<lparr>md_error := ''Could not create employee''\<rparr>"
    by (auto simp: saveEmployee_def Let_def split: prod.splits)
qed

theorem manager_failures_are_section_scoped_witness:
  "loadEmployees (supabase offline) example_db manager_editing
     = manager_editing\<lparr>md_loading := False, md_error := ''Could not load employees''\<rparr>
 \<and> loadTasks (supabase offline) example_db manager_editing
     = manager_editing\<lparr>md_tasksLoading := False, md_tasksError := ''Could not load tasks''\<rparr>
 \<and> fst (saveTask (supabase offline) edited_task_values (manager_editing, example_db))
     = manager_editing\<lparr>md_tasksError := ''Could not save task''\<rparr>
 \<and> fst (saveTask (supabase offline) new_task_values (manager_editing, example_db))
     = manager_editing\<lparr>md_tasksError := ''Could not save task''\<rparr>
 \<and> fst (handleDeleteTask (supabase offline) True ''t1'' (manager_editing, example_db))
     = manager_editing\<lparr>md_tasksError := ''Could not delete task''\<rparr>
 \<and> fst (saveEmployee (supabase offline) edited_employee_values (manager_editing, example_db))
     = manager_editing\<lparr>md_error := ''Could not update employee''\<rparr>
 \<and> fst (saveEmployee (supabase offline) new_employee_values (manager_editing, example_db))
     = manager_editing\<lparr>md_error := ''Could not create employee''\<rparr>"
proof -
  have 1: "error (employees_select (supabase offline) example_db) \<noteq> None"
    by (simp add: supabase_def query_def failed_def offline_fault)
  have 2: "isl (getTasksForManager (supabase offline) example_db)"
    by (simp add: getTasksForManager_def supabase_tasks_select query_def failed_def
        offline_fault)
  have 3: "isl (fst (if truthy (v_id edited_task_values)
      then updateTask (supabase offline) edited_task_values example_db
      else createTask (supabase offline) edited_task_values example_db))"
    by (simp add: edited_task_values_def truthy_def updateTask_def supabase_tasks_update
        mutate_def offline_fault throw_if_def)
  have 4: "isl (fst (if truthy (v_id new_task_values)
      then updateTask (supabase offline) new_task_values example_db
      else createTask (supabase offline) new_task_values example_db))"
    by (simp add: new_task_values_def truthy_def createTask_def supabase_tasks_insert
        mutate_def offline_fault throw_if_def)
  have 5: "isl (fst (deleteTask (supabase offline) ''t1'' example_db))"
    by (simp add: deleteTask_def supabase_def mutate_def offline_fault throw_if_def)
  have 6: "truthy (ev_id edited_employee_values)
      \<and> fst (employees_update (supabase offline)
            \<lparr>ef_full_name = ev_full_name edited_employee_values,
             ef_email = ev_email edited_employee_values,
             ef_role = ev_role edited_employee_values,
             ef_status = ev_status edited_employee_values\<rparr>
            (ev_id edited_employee_values) example_db) \<noteq> None"
    by (simp add: edited_employee_values_def truthy_def supabase_def mutate_def offline_fault)
  have 7: "\<not> truthy (ev_id new_employee_values)
      \<and> fst (employees_insert (supabase offline)
            \<lparr>ef_full_name = ev_full_name new_employee_values,
             ef_email = ev_email new_employee_values,
             ef_role = ev_role new_employee_values,
             ef_status = ev_status new_employee_values\<rparr> example_db) \<noteq> None"
    by (simp add: new_employee_values_def truthy_def supabase_def mutate_def offline_fault)
  note edit = manager_failures_are_section_scoped [where sb = "supabase offline"
      and d = example_db and s = manager_editing and taskValues = edited_task_values
      and i = "''t1''" and formValues = edited_employee_values]
  note new = manager_failures_are_section_scoped [where sb = "supabase offline"
      and d = example_db and s = manager_editing and taskValues = new_task_values
      and i = "''t1''" and formValues = new_employee_values]
  from edit new 1 2 3 4 5 6 7 show ?thesis by blast
qed

section \<open>The employee dashboard: self-lookup\<close>

lemma supabase_employees_single:
  "employees_single (supabase ev) email d =
     query ev EmployeesSingle (single (filter (\<lambda>e. e_email e = email) (db_employees d)))"
  by (simp add: supabase_def)

lemma single_one: "single [x] = \<lparr>data = Some x, error = None\<rparr>"
  by (simp add: single_def succeeded_def)

lemma single_not_one:
  "length xs \<noteq> 1 \<Longrightarrow> error (single xs) \<noteq> None"
  by (cases xs rule: list.exhaust; cases "tl xs") (auto simp: single_def failed_def)

text \<open>
  C7, as amended: when the call itself does not fail, the self-lookup stores the employee
  whose e-mail is the caller's if exactly one row matches; if no row or more than one row
  matches, the lookup fails, the inline error is shown, and the lookup sets no profile
  (it changes the error and the loading flag only): no profile is displayed when none
  had been loaded before, as on the first load after mount.
\<close>

theorem loadEmployee_single:
  assumes ok: "fault_of ev EmployeesSingle = None"
  shows "(\<forall>e. filter (\<lambda>x. e_email x = userEmail) (db_employees d) = [e] \<longrightarrow>
            loadEmployee (supabase ev) userEmail d s
              = s\<lparr>ed_loading := False, ed_error := [], ed_employee := Some e\<rparr>)
    \<and> (length (filter (\<lambda>x. e_email x = userEmail) (db_employees d)) \<noteq> 1 \<longrightarrow>
            loadEmployee (supabase ev) userEmail d s
              = s\<lparr>ed_loading := False, ed_error := ''Could not load your employee record''\<rparr>
          \<and> error_text (ed_error (loadEmployee (supabase ev) userEmail d s))
              = Some ''Could not load your employee record''
          \<and> (ed_employee s = None \<longrightarrow>
                profile_card (loadEmployee (supabase ev) userEmail d s) = None))"
proof (intro conjI allI impI)
  fix e
  assume "filter (\<lambda>x. e_email x = userEmail) (db_employees d) = [e]"
  then show "loadEmployee (supabase ev) userEmail d s
              = s\<lparr>ed_loading := False, ed_error := [], ed_employee := Some e\<rparr>"
    using ok by (simp add: loadEmployee_def supabase_employees_single query_def single_one)
next
  assume n: "length (filter (\<lambda>x. e_email x = userEmail) (db_employees d)) \<noteq> 1"
  from single_not_one [OF n] ok
  have r: "loadEmployee (supabase ev) userEmail d s
      = s\<lparr>ed_loading := False, ed_error := ''Could not load your employee record''\<rparr>"
    by (auto simp: loadEmployee_def supabase_employees_single query_def)
  show "loadEmployee (supabase ev) userEmail d s
      = s\<lparr>ed_loading := False, ed_error := ''Could not load your employee record''\<rparr>"
    by (rule r)
  show "error_text (ed_error (loadEmployee (supabase ev) userEmail d s))
              = Some ''Could not load your employee record''"
    by (simp add: r error_text_def)
  show "profile_card (loadEmployee (supabase ev) userEmail d s) = None"
    if "ed_employee s = None"
    using that by (simp add: r profile_card_def)
qed

theorem loadEmployee_single_witness:
  "fault_of no_faults EmployeesSingle = None
 \<and> loadEmployee (supabase no_faults) ''a@x.com'' example_db mounted
      = mounted\<lparr>ed_loading := False, ed_error := [], ed_employee := Some ann\<rparr>
 \<and> length (filter (\<lambda>x. e_email x = ''nobody@x.com'') (db_employees example_db)) = 0
 \<and> profile_card (loadEmployee (supabase no_faults) ''nobody@x.com'' example_db mounted) = None
 \<and> error_text (ed_error (loadEmployee (supabase no_faults) ''nobody@x.com'' example_db mounted))
      = Some ''Could not load your employee record''
 \<and> length (filter (\<lambda>x. e_email x = ''a@x.com'') (db_employees twins_db)) = 2
 \<and> profile_card (loadEmployee (supabase no_faults) ''a@x.com'' twins_db mounted) = None
 \<and> error_text (ed_error (loadEmployee (supabase no_faults) ''a@x.com'' twins_db mounted))
      = Some ''Could not load your employee record''"
proof -
  have ok: "fault_of no_faults EmployeesSingle = None"
    by (rule no_faults_fault)
  have one: "filter (\<lambda>x. e_email x = ''a@x.com'') (db_employees example_db) = [ann]"
    by (simp add: example_db_def ann_def)
  have zero: "length (filter (\<lambda>x. e_email x = ''nobody@x.com'') (db_employees example_db)) = 0"
    by (simp add: example_db_def)
  have two: "length (filter (\<lambda>x. e_email x = ''a@x.com'') (db_employees twins_db)) = 2"
    by (simp add: twins_db_def example_db_def)
  have none: "ed_employee mounted = None"
    by (simp add: mounted_def)
  from loadEmployee_single [OF ok, of "''a@x.com''" example_db mounted] one
  have a: "loadEmployee (supabase no_faults) ''a@x.com'' example_db mounted
      = mounted\<lparr>ed_loading := False, ed_error := [], ed_employee := Some ann\<rparr>"
    by blast
  from loadEmployee_single [OF ok, of "''nobody@x.com''" example_db mounted] zero none
  have b: "profile_card (loadEmployee (supabase no_faults) ''nobody@x.com'' example_db mounted)
        = None
      \<and> error_text (ed_error (loadEmployee (supabase no_faults) ''nobody@x.com'' example_db
          mounted)) = Some ''Could not load your employee record''"
    by (simp add: profile_card_def error_text_def)
  from loadEmployee_single [OF ok, of "''a@x.com''" twins_db mounted] two none
  have c: "profile_card (loadEmployee (supabase no_faults) ''a@x.com'' twins_db mounted) = None
      \<and> error_text (ed_error (loadEmployee (supabase no_faults) ''a@x.com'' twins_db mounted))
          = Some ''Could not load your employee record''"
    by (simp add: profile_card_def error_text_def)
  from ok a zero b two c show ?thesis by blast
qed

text \<open>
  C7, as stated, fails: when the effect runs again for another e-mail (it depends on
  \<open>userEmail\<close>) and no row matches, the error is shown and the profile loaded before is
  still displayed.
\<close>

theorem failed_lookup_keeps_stale_profile:
  "map e_email (db_employees example_db) = [''a@x.com'', ''b@x.com'']
 \<and> error (employees_single (supabase no_faults) ''nobody@x.com'' example_db) \<noteq> None
 \<and> profile_card (loadEmployee (supabase no_faults) ''nobody@x.com'' example_db ann_loaded)
      = Some ann
 \<and> error_text (ed_error (loadEmployee (supabase no_faults) ''nobody@x.com'' example_db
      ann_loaded)) = Some ''Could not load your employee record''"
  by (simp add: loadEmployee_def supabase_employees_single query_def no_faults_fault
      single_def failed_def example_db_def ann_loaded_def profile_card_def error_text_def)

section \<open>Sign-in, sign-out and the choice of the dashboard\<close>

text \<open>
  C8: for every client. A sign-in that the auth service rejects changes the error message
  only, to the message of the rejection. From the state in which the login form is on
  screen (no session, loading over) the session is still null, the application renders
  the login form with that message, which the form shows when it is not empty, and
  renders neither dashboard.
\<close>

theorem rejected_sign_in:
  assumes rejected: "sign_in_error (auth_signInWithPassword sb email password d) = Some e"
  shows "handleLogin sb email password d s = s\<lparr>app_error := message e\<rparr>
    \<and> (app_session s = None \<and> \<not> app_loading s \<longrightarrow>
          app_session (handleLogin sb email password d s) = None
        \<and> App (handleLogin sb email password d s) = LoginForm (message e)
        \<and> App (handleLogin sb email password d s) \<noteq> ManagerDashboard
        \<and> (\<forall>userEmail. App (handleLogin sb email password d s) \<noteq> EmployeeDashboard userEmail)
        \<and> (message e \<noteq> [] \<longrightarrow> error_text (message e) = Some (message e)))"
  using rejected by (simp add: handleLogin_def App_def error_text_def)

theorem rejected_sign_in_witness:
  "sign_in_error (auth_signInWithPassword (supabase no_faults) ''a@x.com'' ''wrong'' example_db)
     = Some (RemoteError ''Invalid login credentials'')
 \<and> app_session signed_out = None \<and> \<not> app_loading signed_out
 \<and> app_session (handleLogin (supabase no_faults) ''a@x.com'' ''wrong'' example_db signed_out)
     = None
 \<and> App (handleLogin (supabase no_faults) ''a@x.com'' ''wrong'' example_db signed_out)
     = LoginForm ''Invalid login credentials''
 \<and> error_text ''Invalid login credentials'' = Some ''Invalid login credentials''"
proof -
  have r: "sign_in_error (auth_signInWithPassword (supabase no_faults) ''a@x.com'' ''wrong''
      example_db) = Some (RemoteError ''Invalid login credentials'')"
    by (simp add: supabase_def sign_in_def no_faults_fault example_db_def)
  have s: "app_session signed_out = None" and l: "\<not> app_loading signed_out"
    by (simp_all add: signed_out_def)
  from rejected_sign_in [OF r, of signed_out] s l
  have "app_session (handleLogin (supabase no_faults) ''a@x.com'' ''wrong'' example_db
          signed_out) = None
      \<and> App (handleLogin (supabase no_faults) ''a@x.com'' ''wrong'' example_db signed_out)
          = LoginForm ''Invalid login credentials''
      \<and> error_text ''Invalid login credentials'' = Some ''Invalid login credentials''"
    by (simp add: App_def signed_out_def)
  with r s l show ?thesis by blast
qed

text \<open>
  C10: for every client, so whatever \<open>signOut\<close> reports: after \<open>handleLogout\<close> the session
  and the profile are null and nothing else has changed; once the initial load is over
  (the logout button is on screen only then) the application renders the login form.
\<close>

theorem logout_resets:
  "handleLogout sb d s = s\<lparr>app_session := None, app_profile := None\<rparr>
 \<and> app_session (handleLogout sb d s) = None
 \<and> app_profile (handleLogout sb d s) = None
 \<and> (\<not> app_loading s \<longrightarrow> App (handleLogout sb d s) = LoginForm (app_error s))"
  by (simp add: handleLogout_def App_def)

theorem logout_resets_witness:
  "auth_signOut (supabase offline) example_db = Some (RemoteError ''offline'')
 \<and> \<not> app_loading manager_signed_in
 \<and> App manager_signed_in = ManagerDashboard
 \<and> app_session (handleLogout (supabase offline) example_db manager_signed_in) = None
 \<and> app_profile (handleLogout (supabase offline) example_db manager_signed_in) = None
 \<and> App (handleLogout (supabase offline) example_db manager_signed_in) = LoginForm []"
proof -
  have a: "auth_signOut (supabase offline) example_db = Some (RemoteError ''offline'')"
    by (simp add: supabase_def offline_fault)
  have l: "\<not> app_loading manager_signed_in" and e: "app_error manager_signed_in = []"
    and m: "App manager_signed_in = ManagerDashboard"
    by (simp_all add: manager_signed_in_def App_def)
  from logout_resets [of "supabase offline" example_db manager_signed_in] l e
  have "app_session (handleLogout (supabase offline) example_db manager_signed_in) = None
     \<and> app_profile (handleLogout (supabase offline) example_db manager_signed_in) = None
     \<and> App (handleLogout (supabase offline) example_db manager_signed_in) = LoginForm []"
    by (simp add: App_def manager_signed_in_def)
  with a l m show ?thesis by blast
qed

text \<open>
  C1: in the authenticated state (the initial load is over and a session is present) the
  application renders the manager dashboard if and only if the profile is present with
  role \<open>'manager'\<close>, and the employee dashboard of the session's e-mail otherwise. After
  \<open>fetchProfile\<close>: a failed fetch leaves the profile null and the employee dashboard
  renders; a fetch that succeeds stores the row, and the manager dashboard renders exactly
  when the row's role is \<open>'manager'\<close>.
\<close>

theorem dashboard_chooser:
  assumes loaded: "\<not> app_loading s" and authenticated: "app_session s = Some sn"
  shows "(App s = ManagerDashboard \<longleftrightarrow> (\<exists>p. app_profile s = Some p \<and> p_role p = ''manager''))
    \<and> (App s \<noteq> ManagerDashboard \<longrightarrow> App s = EmployeeDashboard (user_email sn))
    \<and> (error (profiles_single sb userId d) \<noteq> None \<longrightarrow>
          app_profile (fetchProfile sb userId d s) = None
        \<and> App (fetchProfile sb userId d s) = EmployeeDashboard (user_email sn))
    \<and> (error (profiles_single sb userId d) = None \<longrightarrow>
          app_profile (fetchProfile sb userId d s) = data (profiles_single sb userId d)
        \<and> (App (fetchProfile sb userId d s) = ManagerDashboard \<longleftrightarrow>
             (\<exists>p. data (profiles_single sb userId d) = Some p \<and> p_role p = ''manager''))
        \<and> (App (fetchProfile sb userId d s) \<noteq> ManagerDashboard \<longrightarrow>
             App (fetchProfile sb userId d s) = EmployeeDashboard (user_email sn)))"
  using loaded authenticated
  by (auto simp: App_def fetchProfile_def Let_def split: option.splits)

theorem dashboard_chooser_witness:
  "\<not> app_loading (signed_out\<lparr>app_session := Some max_session\<rparr>)
 \<and> App (fetchProfile (supabase no_faults) ''u3'' example_db
      (signed_out\<lparr>app_session := Some max_session\<rparr>)) = ManagerDashboard
 \<and> App (fetchProfile (supabase no_faults) ''u1'' example_db
      (signed_out\<lparr>app_session := Some ann_session\<rparr>)) = EmployeeDashboard ''a@x.com''
 \<and> App (fetchProfile (supabase offline) ''u3'' example_db
      (signed_out\<lparr>app_session := Some max_session\<rparr>)) = EmployeeDashboard ''m@x.com''
 \<and> App (fetchProfile (supabase no_faults) ''u9'' example_db
      (signed_out\<lparr>app_session := Some max_session\<rparr>)) = EmployeeDashboard ''m@x.com''
 \<and> App (signed_out\<lparr>app_session := Some max_session\<rparr>) = EmployeeDashboard ''m@x.com''"
proof -
  let ?m = "signed_out\<lparr>app_session := Some max_session\<rparr>"
  let ?a = "signed_out\<lparr>app_session := Some ann_session\<rparr>"
  have lm: "\<not> app_loading ?m" and la: "\<not> app_loading ?a"
    and sm: "app_session ?m = Some max_session" and sa: "app_session ?a = Some ann_session"
    and pm: "app_profile ?m = None"
    by (simp_all add: signed_out_def)
  have em: "user_email max_session = ''m@x.com''" and ea: "user_email ann_session = ''a@x.com''"
    by (simp_all add: max_session_def ann_session_def)
  have 1: "error (profiles_single (supabase no_faults) ''u3'' example_db) = None
      \<and> data (profiles_single (supabase no_faults) ''u3'' example_db)
          = Some \<lparr>p_id = ''u3'', p_full_name = ''Max'', p_role = ''manager''\<rparr>"
    by (simp add: supabase_def query_def no_faults_fault example_db_def single_def
        succeeded_def)
  have 2: "error (profiles_single (supabase no_faults) ''u1'' example_db) = None
      \<and> data (profiles_single (supabase no_faults) ''u1'' example_db)
          = Some \<lparr>p_id = ''u1'', p_full_name = ''Ann'', p_role = ''employee''\<rparr>"
    by (simp add: supabase_def query_def no_faults_fault example_db_def single_def
        succeeded_def)
  have 3: "error (profiles_single (supabase offline) ''u3'' example_db) \<noteq> None"
    by (simp add: supabase_def query_def offline_fault failed_def)
  have 4: "error (profiles_single (supabase no_faults) ''u9'' example_db) \<noteq> None"
    by (simp add: supabase_def query_def no_faults_fault example_db_def single_def
        failed_def)
  from dashboard_chooser [OF lm sm, of "supabase no_faults" "''u3''" example_db] 1
  have A: "App (fetchProfile (supabase no_faults) ''u3'' example_db ?m) = ManagerDashboard"
    by simp
  from dashboard_chooser [OF la sa, of "supabase no_faults" "''u1''" example_db] 2 ea
  have B: "App (fetchProfile (supabase no_faults) ''u1'' example_db ?a)
      = EmployeeDashboard ''a@x.com''"
    by simp
  from dashboard_chooser [OF lm sm, of "supabase offline" "''u3''" example_db] 3 em
  have C: "App (fetchProfile (supabase offline) ''u3'' example_db ?m)
      = EmployeeDashboard ''m@x.com''"
    by simp
  from dashboard_chooser [OF lm sm, of "supabase no_faults" "''u9''" example_db] 4 em
  have D: "App (fetchProfile (supabase no_faults) ''u9'' example_db ?m)
      = EmployeeDashboard ''m@x.com''"
    by simp
  from dashboard_chooser [OF lm sm, of "supabase no_faults" "''u9''" example_db] pm em
  have E: "App ?m = EmployeeDashboard ''m@x.com''"
    by simp
  from lm A B C D E show ?thesis by blast
qed

end
